theory Spec2Isabelle
  imports Main
begin

section \<open>Data model (core/models.py)\<close>

text \<open>
  Primary keys and foreign keys are natural numbers. A timestamp (\<open>timezone.now()\<close>) is a
  number of seconds, a date (\<open>DateField\<close>, \<open>.date()\<close>) a number of days. Each table is the
  list of its rows.
\<close>

datatype status = ASSIGNED | IN_PROGRESS | COMPLETED | OVERDUE

datatype role = ADMIN | MANAGER | LEARNER

datatype kind = MULTIPLE | TRUE_FALSE | SHORT_TEXT

record profile =
  department_id :: "nat option"
  p_role :: role

record user =
  u_id :: nat
  is_superuser :: bool
  u_profile :: "profile option"

record enrollment =
  en_user :: nat
  en_course :: nat
  enrolled_at :: nat
  progress :: nat
  completed_at :: "nat option"
  en_status :: status
  due_date :: "int option"
  required :: bool
  auto_enrolled :: bool
  assigned_by :: "nat option"


record course_material =
  cm_id :: nat
  cm_course :: nat

record material_progress =
  mp_user :: nat
  mp_material :: nat
  mp_percent :: nat
  is_completed :: bool

record quiz =
  quiz_id :: nat
  quiz_course :: nat
  pass_score :: nat
  attempts_allowed :: nat
  quiz_active :: bool

record question =
  q_id :: nat
  q_quiz :: nat
  question_type :: kind
  points :: nat

record choice =
  ch_id :: nat
  ch_question :: nat
  is_correct :: bool

text \<open>
  \<open>score\<close> is the percentage in hundredths (\<open>5000\<close> is \<open>50.00\<close>); \<open>None\<close> is the
  column's NULL. \<open>at_quiz\<close> is the related \<open>Quiz\<close> object that \<open>attempt.quiz\<close> loads.
\<close>

record quiz_attempt =
  at_id :: nat
  at_quiz :: quiz
  at_user :: nat
  started_at :: nat
  finished_at :: "nat option"
  score :: "nat option"
  passed :: bool

text \<open>
  An answer as \<open>select_related("question", "selected_choice")\<close> loads it: with its
  \<open>Question\<close> object and its \<open>Choice\<close> object, if any.
\<close>

record quiz_answer =
  an_attempt :: nat
  an_question :: question
  selected_choice :: "choice option"
  free_text :: string

record db =
  enrollments :: "enrollment list"
  materials :: "course_material list"
  progress_rows :: "material_progress list"
  questions :: "question list"
  choices :: "choice list"
  attempts :: "quiz_attempt list"
  answers :: "quiz_answer list"
  quizzes :: "quiz list"
  users :: "user list"
  courses :: "nat list"
  departments :: "nat list"

section \<open>The clock and Python's round\<close>

definition date_of :: "nat \<Rightarrow> int" where
  "date_of now = int (now div 86400)"

text \<open>
  \<open>int(round(n / d))\<close> for naturals \<open>n\<close> and \<open>d > 0\<close>: Python rounds the quotient to
  the nearest integer, an exact half to the even neighbour. A half is a binary fraction,
  so the floating-point quotient is a tie exactly when the exact quotient is (for counts
  below \<open>2^45\<close>, far above any table of this application).
\<close>

definition py_round :: "nat \<Rightarrow> nat \<Rightarrow> nat" where
  "py_round n d =
     (let q = n div d; r = n mod d
      in if 2 * r < d then q
         else if d < 2 * r then q + 1
         else if even q then q else q + 1)"

section \<open>Enrollment rows (Enrollment.objects)\<close>

text \<open>
  The row that \<open>Enrollment(user=u, course=c)\<close> builds from the field defaults of the model.
\<close>

definition new_enrollment :: "nat \<Rightarrow> nat \<Rightarrow> nat \<Rightarrow> enrollment" where
  "new_enrollment now u c =
     \<lparr>en_user = u, en_course = c, enrolled_at = now, progress = 0, completed_at = None,
      en_status = ASSIGNED, due_date = None, required = True, auto_enrolled = False,
      assigned_by = None\<rparr>"

definition en_key :: "enrollment \<Rightarrow> nat \<times> nat" where
  "en_key e = (en_user e, en_course e)"

text \<open>
  \<open>Enrollment.objects.get(user=u, course=c)\<close>: \<open>None\<close> is \<open>DoesNotExist\<close>. The pair is
  \<open>unique_together\<close>, so at most one row matches in a table the database accepts.
\<close>

definition get_enrollment :: "enrollment list \<Rightarrow> nat \<Rightarrow> nat \<Rightarrow> enrollment option" where
  "get_enrollment es u c = find (\<lambda>e. en_key e = (u, c)) es"

text \<open>
  \<open>get_or_create(user=u, course=c, defaults=...)\<close>; \<open>new\<close> is the row built from the
  lookup fields and the defaults. The result is the object, the \<open>created\<close> flag and the
  table.
\<close>

definition get_or_create ::
  "enrollment list \<Rightarrow> nat \<Rightarrow> nat \<Rightarrow> enrollment \<Rightarrow> enrollment \<times> bool \<times> enrollment list" where
  "get_or_create es u c new =
     (case get_enrollment es u c of
        Some e \<Rightarrow> (e, False, es)
      | None \<Rightarrow> (new, True, es @ [new]))"

text \<open>
  \<open>obj.save(update_fields=[...])\<close>: the listed columns of the object's row are written,
  the others keep what the table holds. The row is the one of the object's (user, course)
  pair.
\<close>

definition save_status_progress_completed :: "enrollment list \<Rightarrow> enrollment \<Rightarrow> enrollment list" where
  "save_status_progress_completed es e =
     map (\<lambda>x. if en_key x = en_key e
              then x\<lparr>en_status := en_status e, progress := progress e,
                     completed_at := completed_at e\<rparr>
              else x) es"


definition save_completed_at :: "enrollment list \<Rightarrow> enrollment \<Rightarrow> enrollment list" where
  "save_completed_at es e =
     map (\<lambda>x. if en_key x = en_key e then x\<lparr>completed_at := completed_at e\<rparr> else x) es"

text \<open>\<open>Enrollment.mark_completed\<close>: the assignments to the object, then its save.\<close>

definition mark_completed_obj :: "nat \<Rightarrow> enrollment \<Rightarrow> enrollment" where
  "mark_completed_obj now e =
     (let e1 = e\<lparr>en_status := COMPLETED\<rparr>;
          e2 = (if completed_at e1 = None then e1\<lparr>completed_at := Some now\<rparr> else e1)
      in e2\<lparr>progress := 100\<rparr>)"

definition mark_completed :: "nat \<Rightarrow> enrollment \<Rightarrow> enrollment list \<Rightarrow> enrollment list" where
  "mark_completed now e es = save_status_progress_completed es (mark_completed_obj now e)"

section \<open>Progress aggregation (core/services/assignments.py)\<close>

definition materials_count :: "db \<Rightarrow> nat \<Rightarrow> nat" where
  "materials_count d c = length (filter (\<lambda>m. cm_course m = c) (materials d))"

text \<open>\<open>material__course=course\<close>: the row's material is a material of the course.\<close>

definition material_in_course :: "db \<Rightarrow> nat \<Rightarrow> nat \<Rightarrow> bool" where
  "material_in_course d mid c = list_ex (\<lambda>m. cm_id m = mid \<and> cm_course m = c) (materials d)"

definition completed_count :: "db \<Rightarrow> nat \<Rightarrow> nat \<Rightarrow> nat" where
  "completed_count d u c =
     length (filter (\<lambda>p. mp_user p = u \<and> material_in_course d (mp_material p) c \<and> is_completed p)
       (progress_rows d))"

definition compute_percent :: "db \<Rightarrow> nat \<Rightarrow> nat \<Rightarrow> nat" where
  "compute_percent d u c =
     (let total = materials_count d c
      in if total = 0 then 0 else py_round (100 * completed_count d u c) total)"

text \<open>The status block of \<open>recompute_enrollment_progress_for\<close>, lines 58 to 70.\<close>

definition set_status :: "nat \<Rightarrow> nat \<Rightarrow> enrollment \<Rightarrow> enrollment" where
  "set_status now percent enr =
     (let enr1 =
        (if (case due_date enr of None \<Rightarrow> False | Some dd \<Rightarrow> percent < 100 \<and> dd < date_of now)
         then enr\<lparr>en_status := OVERDUE\<rparr>
         else if percent = 0 then enr\<lparr>en_status := ASSIGNED\<rparr>
         else if percent < 100 then enr\<lparr>en_status := IN_PROGRESS\<rparr>
         else (let e = enr\<lparr>en_status := COMPLETED\<rparr>
               in if completed_at e = None then e\<lparr>completed_at := Some now\<rparr> else e))
      in enr1\<lparr>progress := percent\<rparr>)"

definition recompute_enrollment_progress_for :: "nat \<Rightarrow> nat \<Rightarrow> nat \<Rightarrow> db \<Rightarrow> db" where
  "recompute_enrollment_progress_for now u c d =
     (let percent = compute_percent d u c;
          (enr, created, es) = get_or_create (enrollments d) u c (new_enrollment now u c)
      in d\<lparr>enrollments := save_status_progress_completed es (set_status now percent enr)\<rparr>)"

section \<open>Auto-enrollment by rules (core/services/assignments.py)\<close>










section \<open>Quiz grading (core/services/quiz.py)\<close>

text \<open>
  \<open>round(n / d, 2)\<close> in hundredths, for naturals \<open>n\<close> and \<open>d > 0\<close>. Python rounds the
  floating-point quotient to the nearest hundredth. When the exact quotient lies halfway
  between two hundredths, Python's result depends on the double: if the quotient is a
  binary fraction (then \<open>25\<close> divides \<open>2 * m + 1\<close>) the double is the quotient and the even
  hundredth is taken; otherwise the double lies just above or just below the quotient, which
  \<open>fl_above n d\<close> tells, and that side is taken.
\<close>

definition py_round2 :: "(nat \<Rightarrow> nat \<Rightarrow> bool) \<Rightarrow> nat \<Rightarrow> nat \<Rightarrow> nat" where
  "py_round2 fl_above n d =
     (let m = (100 * n) div d; r = (100 * n) mod d
      in if 2 * r < d then m
         else if d < 2 * r then m + 1
         else if 25 dvd (2 * m + 1) then (if even m then m else m + 1)
         else if fl_above n d then m + 1 else m)"

text \<open>The body of the loop over the answers: the new value of \<open>obtained\<close>.\<close>

definition grade_step :: "quiz_answer \<Rightarrow> nat \<Rightarrow> nat" where
  "grade_step ans obtained =
     (let q = an_question ans
      in if question_type q = MULTIPLE \<or> question_type q = TRUE_FALSE
         then (case selected_choice ans of
                 Some ch \<Rightarrow> if is_correct ch then obtained + points q else obtained
               | None \<Rightarrow> obtained)
         else obtained)"

definition save_score_passed_finished :: "quiz_attempt list \<Rightarrow> quiz_attempt \<Rightarrow> quiz_attempt list" where
  "save_score_passed_finished as a =
     map (\<lambda>x. if at_id x = at_id a
              then x\<lparr>score := score a, passed := passed a, finished_at := finished_at a\<rparr>
              else x) as"

definition quiz_questions :: "db \<Rightarrow> quiz \<Rightarrow> question list" where
  "quiz_questions d qz = filter (\<lambda>q. q_quiz q = quiz_id qz) (questions d)"

definition attempt_answers :: "db \<Rightarrow> quiz_attempt \<Rightarrow> quiz_answer list" where
  "attempt_answers d attempt = filter (\<lambda>a. an_attempt a = at_id attempt) (answers d)"

text \<open>
  \<open>grade_attempt\<close>. \<open>sum(...) or 1\<close> is \<open>1\<close> when the sum is \<open>0\<close>. The score is in
  hundredths, so \<open>score_pct >= quiz.pass_score\<close> compares it with a hundred times the
  threshold.
\<close>

definition grade_attempt ::
  "(nat \<Rightarrow> nat \<Rightarrow> bool) \<Rightarrow> nat \<Rightarrow> quiz_attempt \<Rightarrow> db \<Rightarrow> quiz_attempt \<times> db" where
  "grade_attempt fl_above now attempt d =
     (let qz = at_quiz attempt;
          s = sum_list (map points (quiz_questions d qz));
          total_points = (if s = 0 then 1 else s);
          obtained = fold grade_step (attempt_answers d attempt) 0;
          score_pct = py_round2 fl_above (100 * obtained) total_points;
          attempt1 = attempt\<lparr>score := Some score_pct,
                             passed := (100 * pass_score qz \<le> score_pct),
                             finished_at := Some now\<rparr>;
          d1 = d\<lparr>attempts := save_score_passed_finished (attempts d) attempt1\<rparr>
      in case get_enrollment (enrollments d1) (at_user attempt) (quiz_course qz) of
           None \<Rightarrow> (attempt1, d1)
         | Some enr \<Rightarrow>
             if passed attempt1
             then (attempt1, d1\<lparr>enrollments := mark_completed now enr (enrollments d1)\<rparr>)
             else (attempt1, d1))"

text \<open>
  The score and the points in the words of the specification: the points of exactly the
  answers to a MULTIPLE or TRUE_FALSE question whose selected choice is correct.
\<close>

definition answer_counts :: "quiz_answer \<Rightarrow> bool" where
  "answer_counts a =
     ((question_type (an_question a) = MULTIPLE \<or> question_type (an_question a) = TRUE_FALSE)
      \<and> (case selected_choice a of None \<Rightarrow> False | Some ch \<Rightarrow> is_correct ch))"

definition spec_obtained :: "db \<Rightarrow> quiz_attempt \<Rightarrow> nat" where
  "spec_obtained d attempt =
     sum_list (map (\<lambda>a. points (an_question a)) (filter answer_counts (attempt_answers d attempt)))"

definition spec_total_points :: "db \<Rightarrow> quiz_attempt \<Rightarrow> nat" where
  "spec_total_points d attempt = sum_list (map points (quiz_questions d (at_quiz attempt)))"

section \<open>Taking a quiz (core/views_quiz.py)\<close>

datatype http_method = GET | POST | HEAD

datatype response = Render string nat | Redirect string | Http404 | IntegrityError

text \<open>
  The request of \<open>quiz_take\<close>: its method, its user, and the form. \<open>q_field i\<close> is the
  primary key that \<open>int(request.POST.get("q_i"))\<close> yields, \<open>None\<close> when the field is missing,
  empty or no number; \<open>t_field i\<close> is \<open>request.POST.get("t_i", "")\<close>.
\<close>

record quiz_request =
  qr_method :: http_method
  qr_user :: nat
  q_field :: "nat \<Rightarrow> nat option"
  t_field :: "nat \<Rightarrow> string"

definition user_attempts :: "db \<Rightarrow> quiz \<Rightarrow> nat \<Rightarrow> quiz_attempt list" where
  "user_attempts d qz u =
     filter (\<lambda>a. quiz_id (at_quiz a) = quiz_id qz \<and> at_user a = u) (attempts d)"

definition next_attempt_id :: "quiz_attempt list \<Rightarrow> nat" where
  "next_attempt_id as = Suc (fold max (map at_id as) 0)"

definition make_answer :: "db \<Rightarrow> quiz_request \<Rightarrow> quiz_attempt \<Rightarrow> question \<Rightarrow> quiz_answer" where
  "make_answer d req attempt q =
     \<lparr>an_attempt = at_id attempt, an_question = q,
      selected_choice =
        (case q_field req (q_id q) of
           None \<Rightarrow> None
         | Some cid \<Rightarrow> find (\<lambda>ch. ch_id ch = cid \<and> ch_question ch = q_id q) (choices d)),
      free_text = take 500 (t_field req (q_id q))\<rparr>"

definition quiz_take ::
  "(nat \<Rightarrow> nat \<Rightarrow> bool) \<Rightarrow> nat \<Rightarrow> quiz_request \<Rightarrow> nat \<Rightarrow> db \<Rightarrow> response \<times> db" where
  "quiz_take fl_above now req qid d =
     (case find (\<lambda>q. quiz_id q = qid \<and> quiz_active q) (quizzes d) of
        None \<Rightarrow> (Http404, d)
      | Some qz \<Rightarrow>
          (let used = length (user_attempts d qz (qr_user req));
               allowed = (if attempts_allowed qz = 0 then 1 else attempts_allowed qz)
           in if allowed \<le> used \<and> qr_method req = GET
              then (Render ''quiz_no_attempts.html'' 403, d)
              else if qr_method req = POST
              then (let attempt = \<lparr>at_id = next_attempt_id (attempts d), at_quiz = qz,
                                     at_user = qr_user req, started_at = now,
                                     finished_at = None, score = None, passed = False\<rparr>;
                        d1 = d\<lparr>attempts := attempts d @ [attempt]\<rparr>;
                        d2 = d1\<lparr>answers := answers d1
                                   @ map (make_answer d1 req attempt) (quiz_questions d1 qz)\<rparr>;
                        (graded, d3) = grade_attempt fl_above now attempt d2
                    in (Redirect ''quiz_result'', d3))
              else (Render ''quiz_take.html'' 200, d)))"

section \<open>Roles (core/views.py, core/extra_views.py)\<close>

text \<open>\<open>_role_of\<close>: the role of the profile, LEARNER when the user has none.\<close>

definition role_of :: "user \<Rightarrow> role" where
  "role_of u = (case u_profile u of Some p \<Rightarrow> p_role p | None \<Rightarrow> LEARNER)"

definition is_admin :: "user \<Rightarrow> bool" where
  "is_admin u = (is_superuser u \<or> role_of u = ADMIN)"

definition is_manager :: "user \<Rightarrow> bool" where
  "is_manager u = (let r = role_of u in r = MANAGER \<or> is_admin u)"

section \<open>Creating enrollments by hand and in bulk (core/views.py)\<close>

text \<open>
  The POST branch of \<open>enrollment_create\<close>. \<open>progress_field\<close> is the number posted as
  \<open>progress\<close>, \<open>None\<close> when the field is empty. \<open>Enrollment.objects.create\<close> on a pair that
  has a row violates \<open>unique_together\<close>.
\<close>

definition enrollment_create :: "nat \<Rightarrow> nat \<Rightarrow> nat \<Rightarrow> nat option \<Rightarrow> db \<Rightarrow> response \<times> db" where
  "enrollment_create now user_id course_id progress_field d =
     (if \<not> list_ex (\<lambda>u. u_id u = user_id) (users d) then (Http404, d)
      else if \<not> List.member (courses d) course_id then (Http404, d)
      else if get_enrollment (enrollments d) user_id course_id \<noteq> None then (IntegrityError, d)
      else (let e = (new_enrollment now user_id course_id)
                      \<lparr>enrolled_at := now,
                       progress := (case progress_field of Some p \<Rightarrow> p | None \<Rightarrow> 0)\<rparr>;
                es = enrollments d @ [e];
                es1 = (if 100 \<le> progress e \<and> completed_at e = None
                       then save_completed_at es (e\<lparr>completed_at := Some now\<rparr>)
                       else es)
            in (Redirect ''enrollments_list'', d\<lparr>enrollments := es1\<rparr>)))"

text \<open>
  The loop of \<open>course_bulk_enroll\<close> over the users of the department, with the counters
  \<open>created\<close> and \<open>skipped\<close>.
\<close>

fun bulk_loop ::
  "nat \<Rightarrow> nat \<Rightarrow> nat \<Rightarrow> user list \<Rightarrow> nat \<times> nat \<times> enrollment list \<Rightarrow> nat \<times> nat \<times> enrollment list" where
  "bulk_loop now course initial_progress [] acc = acc"
| "bulk_loop now course initial_progress (u # us) (created, skipped, es) =
     (let (obj, was_created, es1) =
            get_or_create es (u_id u) course
              ((new_enrollment now (u_id u) course)
                 \<lparr>enrolled_at := now, progress := initial_progress\<rparr>)
      in if was_created
         then bulk_loop now course initial_progress us
                (created + 1, skipped,
                 if 100 \<le> initial_progress
                 then save_completed_at es1 (obj\<lparr>completed_at := Some now\<rparr>)
                 else es1)
         else bulk_loop now course initial_progress us (created, skipped + 1, es1))"

text \<open>
  The POST branch of \<open>course_bulk_enroll\<close>. \<open>department_field\<close> is \<open>int(dep_id)\<close>, \<open>None\<close>
  when the field is missing or no number; \<open>progress_field\<close> is \<open>int(initial_progress)\<close>,
  \<open>None\<close> when that raises. The result is the response, the two counters and the database.
\<close>

definition course_bulk_enroll ::
  "nat \<Rightarrow> user \<Rightarrow> nat \<Rightarrow> nat option \<Rightarrow> int option \<Rightarrow> db \<Rightarrow> response \<times> nat \<times> nat \<times> db" where
  "course_bulk_enroll now ruser course_id department_field progress_field d =
     (if \<not> List.member (courses d) course_id then (Http404, 0, 0, d)
      else
        (let my_dept = (case u_profile ruser of None \<Rightarrow> None | Some p \<Rightarrow> department_id p);
             admin = is_admin ruser;
             mgr = is_manager ruser;
             p0 = (case progress_field of Some p \<Rightarrow> p | None \<Rightarrow> 0);
             p1 = (if p0 < 0 then 0 else p0);
             initial_progress = nat (if 100 < p1 then 100 else p1);
             dept = (case department_field of
                       None \<Rightarrow> None
                     | Some i \<Rightarrow> if List.member (departments d) i then Some i else None)
         in if mgr \<and> \<not> admin \<and> (my_dept = None \<or> dept = None \<or> dept \<noteq> my_dept)
            then (Redirect ''course_bulk_enroll'', 0, 0, d)
            else if dept = None then (Redirect ''course_bulk_enroll'', 0, 0, d)
            else (let users_qs =
                        filter (\<lambda>u. case u_profile u of
                                      None \<Rightarrow> False
                                    | Some p \<Rightarrow> department_id p = dept) (users d);
                      (created, skipped, es) =
                        bulk_loop now course_id initial_progress users_qs (0, 0, enrollments d)
                  in (Redirect ''enrollments_list'', created, skipped, d\<lparr>enrollments := es\<rparr>))))"

section \<open>Impersonation (core/extra_views.py, core/impersonation.py)\<close>

datatype level = Info | Warning | Error | Success

text \<open>
  The part of the session the two views read and write: the authenticated user and the
  two keys. \<open>login\<close> is Django's; it is a parameter of the model.
\<close>

record session =
  auth_user_id :: nat
  impersonator_id :: "nat option"
  is_impersonating :: "string option"

record request =
  rq_user :: user
  rq_session :: session

datatype target = To string | To_login | Not_found

type_synonym outcome = "session \<times> (level \<times> string) list \<times> target"

text \<open>
  \<open>impersonate_start\<close> of core/extra_views.py, the view the URLs route to. The success
  messages of both views end with the target's user name, which is left out here.
\<close>

definition impersonate_start ::
  "(session \<Rightarrow> user \<Rightarrow> session) \<Rightarrow> user list \<Rightarrow> request \<Rightarrow> nat \<Rightarrow> outcome" where
  "impersonate_start login us request user_id =
     (if \<not> is_admin (rq_user request)
      then (rq_session request, [(Error, ''Not authorized.'')], To ''user_list'')
      else case find (\<lambda>u. u_id u = user_id) us of
        None \<Rightarrow> (rq_session request, [], Not_found)
      | Some target \<Rightarrow>
          if u_id (rq_user request) = u_id target
          then (rq_session request, [(Info, ''You are already this user.'')], To ''dashboard'')
          else (let s1 = (rq_session request)\<lparr>impersonator_id := Some (u_id (rq_user request))\<rparr>;
                    s2 = s1\<lparr>is_impersonating := Some ''1''\<rparr>;
                    s3 = login s2 target
                in (s3, [(Success, ''Now impersonating'')], To ''dashboard'')))"

text \<open>
  \<open>_is_admin\<close> and \<open>impersonate_start\<close> of core/impersonation.py. The decorator
  \<open>user_passes_test(_is_admin)\<close> redirects to the login page when the test fails, before
  the view's body runs. \<open>if request.session.get("impersonator_id")\<close> is false for a
  missing key and for \<open>0\<close>.
\<close>

definition is_admin_imp :: "user \<Rightarrow> bool" where
  "is_admin_imp u =
     (is_superuser u \<or> (case u_profile u of None \<Rightarrow> False | Some p \<Rightarrow> p_role p = ADMIN))"

definition impersonate_start_imp ::
  "(session \<Rightarrow> user \<Rightarrow> session) \<Rightarrow> user list \<Rightarrow> request \<Rightarrow> nat \<Rightarrow> outcome" where
  "impersonate_start_imp login us request user_id =
     (if \<not> is_admin_imp (rq_user request) then (rq_session request, [], To_login)
      else if impersonator_id (rq_session request) \<noteq> None
              \<and> impersonator_id (rq_session request) \<noteq> Some 0
      then (rq_session request,
            [(Warning, ''You are already impersonating. Stop first.'')], To ''dashboard'')
      else case find (\<lambda>u. u_id u = user_id) us of
        None \<Rightarrow> (rq_session request, [], Not_found)
      | Some target \<Rightarrow>
          if is_superuser target \<and> \<not> is_superuser (rq_user request)
          then (rq_session request,
                [(Error, ''You cannot impersonate a superuser.'')], To ''user_list'')
          else (let s1 = (rq_session request)\<lparr>impersonator_id := Some (u_id (rq_user request))\<rparr>;
                    s2 = login s1 target
                in (s2, [(Success, ''You are now impersonating'')], To ''dashboard'')))"

section \<open>Notions and example data of the statements\<close>

text \<open>
  The enrollment a call of \<open>recompute_enrollment_progress_for\<close> works on: the row of the
  pair, or the one \<open>get_or_create\<close> creates. \<open>past_due\<close> is the date test of line 58.
\<close>

definition enrollment_or_new :: "nat \<Rightarrow> nat \<Rightarrow> nat \<Rightarrow> db \<Rightarrow> enrollment" where
  "enrollment_or_new now u c d =
     (case get_enrollment (enrollments d) u c of Some e \<Rightarrow> e | None \<Rightarrow> new_enrollment now u c)"

definition past_due :: "nat \<Rightarrow> enrollment \<Rightarrow> bool" where
  "past_due now e = (case due_date e of None \<Rightarrow> False | Some dd \<Rightarrow> dd < date_of now)"

text \<open>
  An enrollment of user 7 in course 3, due on day 5, in a database where the course has no
  material.
\<close>

definition overdue_db :: db where
  "overdue_db =
     \<lparr>enrollments = [(new_enrollment 0 7 3)\<lparr>due_date := Some 5\<rparr>],
      materials = [], progress_rows = [], questions = [], choices = [], attempts = [],
      answers = [], quizzes = [], users = [], courses = [3], departments = []\<rparr>"

definition empty_db :: db where
  "empty_db =
     \<lparr>enrollments = [], materials = [], progress_rows = [], questions = [], choices = [],
      attempts = [], answers = [], quizzes = [], users = [], courses = [3], departments = []\<rparr>"

text \<open>Course 3 with 300 materials, of which user 7 has completed 299.\<close>

definition big_db :: db where
  "big_db =
     \<lparr>enrollments = [],
      materials = map (\<lambda>i. \<lparr>cm_id = i, cm_course = 3\<rparr>) [0..<300],
      progress_rows =
        map (\<lambda>i. \<lparr>mp_user = 7, mp_material = i, mp_percent = 100, is_completed = True\<rparr>) [0..<299],
      questions = [], choices = [], attempts = [], answers = [], quizzes = [], users = [],
      courses = [3], departments = []\<rparr>"

text \<open>
  The score of the claim, in hundredths:
  \<open>round(100 * obtained / max(total_points, 1), 2)\<close> over the points of the specification.
\<close>

definition graded_score :: "(nat \<Rightarrow> nat \<Rightarrow> bool) \<Rightarrow> db \<Rightarrow> quiz_attempt \<Rightarrow> nat" where
  "graded_score fl_above d attempt =
     py_round2 fl_above (100 * spec_obtained d attempt) (max (spec_total_points d attempt) 1)"

text \<open>
  Every answer of the attempt answers a question of the attempt's quiz, as the answers
  that \<open>quiz_take\<close> creates do.
\<close>

definition answers_on_quiz :: "db \<Rightarrow> quiz_attempt \<Rightarrow> bool" where
  "answers_on_quiz d attempt =
     list_all (\<lambda>a. List.member (quiz_questions d (at_quiz attempt)) (an_question a))
       (attempt_answers d attempt)"

text \<open>
  Example 2: quiz 4 of course 3 with pass score 60 and questions of 1, 2 and 3 points; user
  7 answers the first two correctly and the third wrongly.
\<close>

definition ex_quiz :: quiz where
  "ex_quiz = \<lparr>quiz_id = 4, quiz_course = 3, pass_score = 60, attempts_allowed = 1,
              quiz_active = True\<rparr>"

definition ex_attempt :: quiz_attempt where
  "ex_attempt = \<lparr>at_id = 5, at_quiz = ex_quiz, at_user = 7, started_at = 0,
                 finished_at = None, score = None, passed = False\<rparr>"

definition ex_questions :: "question list" where
  "ex_questions =
     [\<lparr>q_id = 11, q_quiz = 4, question_type = MULTIPLE, points = 1\<rparr>,
      \<lparr>q_id = 12, q_quiz = 4, question_type = TRUE_FALSE, points = 2\<rparr>,
      \<lparr>q_id = 13, q_quiz = 4, question_type = MULTIPLE, points = 3\<rparr>]"

definition ex_answers :: "quiz_answer list" where
  "ex_answers =
     [\<lparr>an_attempt = 5, an_question = ex_questions ! 0,
       selected_choice = Some \<lparr>ch_id = 21, ch_question = 11, is_correct = True\<rparr>, free_text = []\<rparr>,
      \<lparr>an_attempt = 5, an_question = ex_questions ! 1,
       selected_choice = Some \<lparr>ch_id = 23, ch_question = 12, is_correct = True\<rparr>, free_text = []\<rparr>,
      \<lparr>an_attempt = 5, an_question = ex_questions ! 2,
       selected_choice = Some \<lparr>ch_id = 26, ch_question = 13, is_correct = False\<rparr>, free_text = []\<rparr>]"

definition ex_quiz_db :: db where
  "ex_quiz_db =
     \<lparr>enrollments = [], materials = [], progress_rows = [], questions = ex_questions,
      choices = [], attempts = [ex_attempt], answers = ex_answers, quizzes = [ex_quiz],
      users = [], courses = [3], departments = []\<rparr>"

text \<open>The same quiz without questions and answers.\<close>

definition no_question_db :: db where
  "no_question_db = ex_quiz_db\<lparr>questions := [], answers := []\<rparr>"

text \<open>
  The quiz without questions again, where the attempt has one answer, to a question of
  quiz 9 worth 1 point, with a correct choice selected. Nothing in the data model ties the
  question of an answer to the quiz of its attempt.
\<close>

definition stray_db :: db where
  "stray_db =
     no_question_db
       \<lparr>answers :=
          [\<lparr>an_attempt = 5,
            an_question = \<lparr>q_id = 31, q_quiz = 9, question_type = MULTIPLE, points = 1\<rparr>,
            selected_choice = Some \<lparr>ch_id = 41, ch_question = 31, is_correct = True\<rparr>,
            free_text = []\<rparr>]\<rparr>"

text \<open>The same quiz with pass score 50, without and with an enrollment of user 7.\<close>

definition pass_attempt :: quiz_attempt where
  "pass_attempt = ex_attempt\<lparr>at_quiz := ex_quiz\<lparr>pass_score := 50\<rparr>\<rparr>"

definition pass_db :: db where
  "pass_db = ex_quiz_db\<lparr>attempts := [pass_attempt], quizzes := [ex_quiz\<lparr>pass_score := 50\<rparr>]\<rparr>"

definition enrolled_db :: db where
  "enrolled_db = pass_db\<lparr>enrollments := [new_enrollment 0 7 3]\<rparr>"

text \<open>
  A history of the application: calls of \<open>recompute_enrollment_progress_for\<close> and of
  \<open>grade_attempt\<close>, between which the material progress and the materials change in any
  way.
\<close>

datatype op =
    Recompute nat nat nat
  | Grade "nat \<Rightarrow> nat \<Rightarrow> bool" nat quiz_attempt
  | Write_progress "material_progress list"
  | Write_materials "course_material list"

fun apply_op :: "op \<Rightarrow> db \<Rightarrow> db" where
  "apply_op (Recompute now u c) d = recompute_enrollment_progress_for now u c d"
| "apply_op (Grade fl now attempt) d = snd (grade_attempt fl now attempt d)"
| "apply_op (Write_progress ps) d = d\<lparr>progress_rows := ps\<rparr>"
| "apply_op (Write_materials ms) d = d\<lparr>materials := ms\<rparr>"

text \<open>An enrollment of user 7 in course 3 that was completed at time 9.\<close>

definition done_db :: db where
  "done_db =
     empty_db\<lparr>enrollments :=
       [(new_enrollment 0 7 3)\<lparr>en_status := COMPLETED, progress := 100, completed_at := Some 9\<rparr>]\<rparr>"

text \<open>
  Course 3 and department 2, with the superuser 1 and the learner 7 of department 2; no
  enrollment yet.
\<close>

definition bulk_db :: db where
  "bulk_db =
     empty_db\<lparr>users :=
                [\<lparr>u_id = 1, is_superuser = True, u_profile = None\<rparr>,
                 \<lparr>u_id = 7, is_superuser = False,
                  u_profile = Some \<lparr>department_id = Some 2, p_role = LEARNER\<rparr>\<rparr>],
              departments := [2]\<rparr>"

text \<open>The learner 7, logged in, asks to impersonate user 1.\<close>

definition learner_request :: request where
  "learner_request =
     \<lparr>rq_user = \<lparr>u_id = 7, is_superuser = False,
                 u_profile = Some \<lparr>department_id = Some 2, p_role = LEARNER\<rparr>\<rparr>,
      rq_session = \<lparr>auth_user_id = 7, impersonator_id = None, is_impersonating = None\<rparr>\<rparr>"









section \<open>Properties of the enrollment table\<close>

lemma en_key_set_status: "en_key (set_status now p e) = en_key e"
  by (simp add: set_status_def en_key_def Let_def)

lemma en_key_new: "en_key (new_enrollment now u c) = (u, c)"
  by (simp add: en_key_def new_enrollment_def)

lemma get_Some_key: "get_enrollment es u c = Some e \<Longrightarrow> en_key e = (u, c)"
  by (induction es) (auto simp: get_enrollment_def split: if_splits)

lemma get_append:
  "get_enrollment (es @ [n]) u c =
     (case get_enrollment es u c of Some e \<Rightarrow> Some e
      | None \<Rightarrow> if en_key n = (u, c) then Some n else None)"
  by (induction es) (auto simp: get_enrollment_def)

lemma get_save_spc:
  "get_enrollment (save_status_progress_completed es e) u c =
     (if en_key e = (u, c)
      then map_option (\<lambda>x. x\<lparr>en_status := en_status e, progress := progress e,
                               completed_at := completed_at e\<rparr>) (get_enrollment es u c)
      else get_enrollment es u c)"
  by (induction es) (auto simp: get_enrollment_def save_status_progress_completed_def en_key_def)

lemma save_spc_same:
  "save_status_progress_completed (save_status_progress_completed es e) e
     = save_status_progress_completed es e"
  by (induction es) (auto simp: save_status_progress_completed_def en_key_def)

section \<open>Properties of the progress aggregation\<close>

lemma set_status_fields:
  "e\<lparr>en_status := en_status (set_status now p e), progress := progress (set_status now p e),
     completed_at := completed_at (set_status now p e)\<rparr> = set_status now p e"
  by (simp add: set_status_def Let_def)

lemma recompute_row:
  "get_enrollment (enrollments (recompute_enrollment_progress_for now u c d)) u c =
     Some (set_status now (compute_percent d u c) (enrollment_or_new now u c d))"
  by (auto simp: recompute_enrollment_progress_for_def get_or_create_def enrollment_or_new_def
      Let_def get_save_spc get_append en_key_set_status en_key_new set_status_fields
      dest: get_Some_key split: option.splits)

lemma recompute_other_row:
  "(u0, c0) \<noteq> (u, c) \<Longrightarrow>
   get_enrollment (enrollments (recompute_enrollment_progress_for now u c d)) u0 c0 =
   get_enrollment (enrollments d) u0 c0"
  by (auto simp: recompute_enrollment_progress_for_def get_or_create_def Let_def
      get_save_spc get_append en_key_set_status en_key_new
      dest: get_Some_key split: option.splits)

lemma compute_percent_enrollments:
  "compute_percent (d\<lparr>enrollments := es\<rparr>) u c = compute_percent d u c"
  by (simp add: compute_percent_def materials_count_def completed_count_def material_in_course_def)

lemma compute_percent_recompute:
  "compute_percent (recompute_enrollment_progress_for now u c d) u' c' = compute_percent d u' c'"
  by (simp add: recompute_enrollment_progress_for_def Let_def compute_percent_enrollments
      split: prod.splits)

lemma set_status_again:
  "date_of now2 = date_of now1 \<Longrightarrow>
   set_status now2 p (set_status now1 p e) = set_status now1 p e"
  by (auto simp: set_status_def Let_def split: option.splits)

subsection \<open>A course without materials\<close>

text \<open>
  C2, as stated, fails: on day 10 the enrollment of \<open>overdue_db\<close> is recomputed to OVERDUE,
  although its course has no material.
\<close>

theorem zero_materials_overdue_counterexample:
  "materials_count overdue_db 3 = 0
   \<and> map_option en_status
       (get_enrollment (enrollments (recompute_enrollment_progress_for 864000 7 3 overdue_db)) 7 3)
     = Some OVERDUE"
proof -
  have m: "materials_count overdue_db 3 = 0"
    by (simp add: materials_count_def overdue_db_def)
  have p: "compute_percent overdue_db 7 3 = 0"
    by (simp add: compute_percent_def m)
  have e: "enrollment_or_new 864000 7 3 overdue_db = (new_enrollment 0 7 3)\<lparr>due_date := Some 5\<rparr>"
    by (simp add: enrollment_or_new_def overdue_db_def get_enrollment_def en_key_def
        new_enrollment_def)
  have "en_status (set_status 864000 0 ((new_enrollment 0 7 3)\<lparr>due_date := Some 5\<rparr>)) = OVERDUE"
    by (simp add: set_status_def date_of_def Let_def)
  then show ?thesis
    by (simp add: recompute_row m p e)
qed

text \<open>
  C2, amended: for a course with no material, the recomputed enrollment has progress 0 and
  is never COMPLETED; its status is OVERDUE when it has a due date before today and
  ASSIGNED otherwise; its completion time is left as it was.
\<close>

theorem recompute_zero_materials:
  assumes "materials_count d c = 0"
  shows "\<exists>e. get_enrollment (enrollments (recompute_enrollment_progress_for now u c d)) u c = Some e
           \<and> progress e = 0
           \<and> en_status e = (if past_due now (enrollment_or_new now u c d) then OVERDUE else ASSIGNED)
           \<and> en_status e \<noteq> COMPLETED
           \<and> completed_at e = completed_at (enrollment_or_new now u c d)"
proof -
  have "compute_percent d u c = 0"
    using assms by (simp add: compute_percent_def)
  then show ?thesis
    by (simp add: recompute_row set_status_def past_due_def Let_def split: option.splits)
qed

theorem recompute_zero_materials_witness:
  "materials_count empty_db 3 = 0
   \<and> (\<exists>e. get_enrollment (enrollments (recompute_enrollment_progress_for 864000 7 3 empty_db)) 7 3
            = Some e
          \<and> progress e = 0 \<and> en_status e = ASSIGNED)"
proof -
  have m: "materials_count empty_db 3 = 0"
    by (simp add: materials_count_def empty_db_def)
  have p: "\<not> past_due 864000 (enrollment_or_new 864000 7 3 empty_db)"
    by (simp add: past_due_def enrollment_or_new_def empty_db_def get_enrollment_def
        new_enrollment_def)
  show ?thesis
    using recompute_zero_materials [OF m, of 864000 7] p m by auto
qed

subsection \<open>Idempotence\<close>

text \<open>
  C6: a second call of \<open>recompute_enrollment_progress_for\<close> for the same user and course, on
  the same day and with the materials and the material progress unchanged, leaves the
  database exactly as the first call left it.
\<close>

theorem recompute_idempotent:
  assumes "date_of now2 = date_of now1"
  shows "recompute_enrollment_progress_for now2 u c (recompute_enrollment_progress_for now1 u c d)
       = recompute_enrollment_progress_for now1 u c d"
proof -
  let ?d1 = "recompute_enrollment_progress_for now1 u c d"
  let ?p = "compute_percent d u c"
  let ?e1 = "set_status now1 ?p (enrollment_or_new now1 u c d)"
  obtain enr created es where goc:
    "get_or_create (enrollments d) u c (new_enrollment now1 u c) = (enr, created, es)"
    by (cases "get_or_create (enrollments d) u c (new_enrollment now1 u c)") auto
  have enr: "enr = enrollment_or_new now1 u c d"
    using goc by (auto simp: get_or_create_def enrollment_or_new_def split: option.splits)
  have d1: "enrollments ?d1 = save_status_progress_completed es ?e1"
    by (simp add: recompute_enrollment_progress_for_def goc enr [symmetric])
  have row: "get_enrollment (enrollments ?d1) u c = Some ?e1" by (rule recompute_row)
  have pc: "compute_percent ?d1 u c = ?p" by (rule compute_percent_recompute)
  have again: "set_status now2 ?p ?e1 = ?e1" by (rule set_status_again [OF assms])
  have same: "save_status_progress_completed (enrollments ?d1) ?e1 = enrollments ?d1"
    by (simp add: d1 save_spc_same)
  have "recompute_enrollment_progress_for now2 u c ?d1 = ?d1\<lparr>enrollments := enrollments ?d1\<rparr>"
    unfolding recompute_enrollment_progress_for_def [of now2 u c ?d1]
    by (simp add: get_or_create_def row pc again same)
  then show ?thesis by simp
qed

theorem recompute_idempotent_witness:
  "date_of 864001 = date_of 864000
   \<and> recompute_enrollment_progress_for 864001 7 3
       (recompute_enrollment_progress_for 864000 7 3 overdue_db)
     = recompute_enrollment_progress_for 864000 7 3 overdue_db"
proof -
  have h: "date_of 864001 = date_of 864000" by (simp add: date_of_def)
  show ?thesis using h recompute_idempotent [OF h, of 7 3 overdue_db] by simp
qed

subsection \<open>Rounding to 100 before every material is completed\<close>

lemma len_filter_map_all:
  "(\<And>i. i \<in> set xs \<Longrightarrow> P (f i)) \<Longrightarrow> length (filter P (map f xs)) = length xs"
  by (induction xs) auto

lemma big_total: "materials_count big_db 3 = 300"
  by (simp add: materials_count_def big_db_def len_filter_map_all)

lemma big_done: "completed_count big_db 7 3 = 299"
  by (simp add: completed_count_def big_db_def len_filter_map_all material_in_course_def
      list_ex_iff)

lemma big_percent: "compute_percent big_db 7 3 = 100"
  by (simp add: compute_percent_def big_total big_done py_round_def Let_def)

text \<open>
  C10: with 299 of 300 materials completed the quotient 99.67 rounds to 100, and the
  enrollment is created COMPLETED with a completion time, so COMPLETED does not say that
  every material is completed.
\<close>

theorem rounds_to_completed:
  "completed_count big_db 7 3 < materials_count big_db 3
   \<and> get_enrollment (enrollments (recompute_enrollment_progress_for now 7 3 big_db)) 7 3
     = Some ((new_enrollment now 7 3)
              \<lparr>en_status := COMPLETED, completed_at := Some now, progress := 100\<rparr>)"
proof -
  have "enrollment_or_new now 7 3 big_db = new_enrollment now 7 3"
    by (simp add: enrollment_or_new_def big_db_def get_enrollment_def)
  then show ?thesis
    by (simp add: recompute_row big_percent big_total big_done set_status_def Let_def
        new_enrollment_def)
qed

section \<open>Properties of the quiz grading\<close>

lemma fold_grade_step:
  "fold grade_step xs acc
     = acc + sum_list (map (\<lambda>a. points (an_question a)) (filter answer_counts xs))"
  by (induction xs arbitrary: acc)
    (auto simp: grade_step_def answer_counts_def Let_def split: option.splits)

lemma total_or_1: "(if s = 0 then 1 else s) = max s (1::nat)"
  by auto

lemma grade_fst:
  "fst (grade_attempt fl now attempt d)
     = attempt\<lparr>score := Some (graded_score fl d attempt),
               passed := (100 * pass_score (at_quiz attempt) \<le> graded_score fl d attempt),
               finished_at := Some now\<rparr>"
  by (simp add: grade_attempt_def Let_def fold_grade_step graded_score_def spec_obtained_def
      spec_total_points_def total_or_1 split: option.splits)

lemma py_round2_0: "0 < d \<Longrightarrow> py_round2 fl 0 d = 0"
  by (simp add: py_round2_def)

lemma no_questions_no_points:
  assumes q: "quiz_questions d (at_quiz attempt) = []" and a: "answers_on_quiz d attempt"
  shows "graded_score fl d attempt = 0"
proof -
  from a q have "attempt_answers d attempt = []"
    by (cases "attempt_answers d attempt") (auto simp: answers_on_quiz_def)
  then show ?thesis
    by (simp add: graded_score_def spec_obtained_def spec_total_points_def q py_round2_0)
qed

lemma ex_score: "graded_score fl ex_quiz_db ex_attempt = 5000"
  by (simp add: graded_score_def spec_obtained_def spec_total_points_def ex_quiz_db_def
      ex_attempt_def ex_quiz_def ex_questions_def ex_answers_def attempt_answers_def
      quiz_questions_def answer_counts_def py_round2_def Let_def)

lemma pass_score_5000: "graded_score fl pass_db pass_attempt = 5000"
  by (simp add: graded_score_def spec_obtained_def spec_total_points_def ex_quiz_db_def
      pass_db_def pass_attempt_def ex_attempt_def ex_quiz_def ex_questions_def ex_answers_def
      attempt_answers_def quiz_questions_def answer_counts_def py_round2_def Let_def)

lemma enrolled_score_5000: "graded_score fl enrolled_db pass_attempt = 5000"
  by (simp add: graded_score_def spec_obtained_def spec_total_points_def ex_quiz_db_def
      enrolled_db_def pass_db_def pass_attempt_def ex_attempt_def ex_quiz_def ex_questions_def
      ex_answers_def attempt_answers_def quiz_questions_def answer_counts_def py_round2_def
      Let_def)

text \<open>
  Where \<open>quiz_take\<close> calls \<open>grade_attempt\<close>, the answers of the attempt answer questions
  of its quiz: the attempt is new, so no older answer belongs to it (every answer in the
  table belongs to an attempt of the table), and its own answers are made from the quiz's
  questions.
\<close>

lemma fold_max_ge: "a \<le> fold max xs a \<and> (\<forall>x\<in>set xs. x \<le> fold max xs (a::nat))"
proof (induction xs arbitrary: a)
  case Nil
  then show ?case by simp
next
  case (Cons y ys)
  from Cons.IH [of "max y a"] show ?case by auto
qed

lemma next_attempt_id_fresh: "a \<in> set as \<Longrightarrow> at_id a < next_attempt_id as"
  using fold_max_ge [of 0 "map at_id as"] by (auto simp: next_attempt_id_def less_Suc_eq_le)

lemma quiz_take_answers_on_quiz:
  assumes fk: "list_all (\<lambda>a. List.member (map at_id (attempts d)) (an_attempt a)) (answers d)"
    and at: "at_id attempt = next_attempt_id (attempts d)" "at_quiz attempt = qz"
  shows "answers_on_quiz
           (d\<lparr>attempts := attempts d @ [attempt],
              answers := answers d @ map (make_answer d' req attempt) (quiz_questions d qz)\<rparr>)
           attempt"
proof -
  have old: "filter (\<lambda>a. an_attempt a = at_id attempt) (answers d) = []"
  proof -
    have "an_attempt a \<noteq> at_id attempt" if "a \<in> set (answers d)" for a
    proof -
      from fk that obtain x where "x \<in> set (attempts d)" "an_attempt a = at_id x"
        by (auto simp: list_all_iff)
      with next_attempt_id_fresh [of x "attempts d"] at(1) show ?thesis by simp
    qed
    then show ?thesis by (simp add: filter_empty_conv)
  qed
  have new: "filter (\<lambda>a. an_attempt a = at_id attempt)
               (map (make_answer d' req attempt) (quiz_questions d qz))
             = map (make_answer d' req attempt) (quiz_questions d qz)"
    by (simp add: filter_map o_def make_answer_def)
  have qs: "quiz_questions
              (d\<lparr>attempts := attempts d @ [attempt],
                 answers := answers d @ map (make_answer d' req attempt) (quiz_questions d qz)\<rparr>)
              (at_quiz attempt) = quiz_questions d qz"
    by (simp add: quiz_questions_def at(2))
  show ?thesis
    unfolding answers_on_quiz_def qs
    by (simp add: attempt_answers_def old new list_all_iff) (simp add: make_answer_def)
qed

lemma stray_score: "graded_score fl stray_db ex_attempt = 10000"
  by (simp add: graded_score_def spec_obtained_def spec_total_points_def stray_db_def
      no_question_db_def ex_quiz_db_def ex_attempt_def ex_quiz_def attempt_answers_def
      quiz_questions_def answer_counts_def py_round2_def Let_def)

text \<open>
  C1, as stated, fails in its zero-question part: \<open>grade_attempt\<close> counts every answer of
  the attempt, also one to a question of another quiz. With the stray correct answer of
  \<open>stray_db\<close> the quiz without questions grades to 100.00 and passes at pass score 60,
  where the claim says 0.0 and failed.
\<close>

theorem zero_questions_stray_answer_counterexample:
  "quiz_questions stray_db (at_quiz ex_attempt) = []
   \<and> pass_score (at_quiz ex_attempt) = 60
   \<and> score (fst (grade_attempt (\<lambda>n d. False) 9 ex_attempt stray_db)) = Some 10000
   \<and> passed (fst (grade_attempt (\<lambda>n d. False) 9 ex_attempt stray_db))"
proof -
  have q: "quiz_questions stray_db (at_quiz ex_attempt) = []"
    by (simp add: quiz_questions_def stray_db_def no_question_db_def)
  have p: "pass_score (at_quiz ex_attempt) = 60"
    by (simp add: ex_attempt_def ex_quiz_def)
  show ?thesis
    by (simp add: q p grade_fst stray_score)
qed

text \<open>
  C1, amended: \<open>grade_attempt\<close> sets the score to
  \<open>round(100 * obtained / max(total_points, 1), 2)\<close>, where \<open>total_points\<close> sums the points of
  the quiz's questions and \<open>obtained\<close> the points of exactly the answers of the attempt to a
  MULTIPLE or TRUE_FALSE question whose selected choice is correct, and sets \<open>passed\<close> to
  \<open>score >= pass_score\<close>. A quiz without questions grades to 0, and passes exactly when the
  pass score is 0, provided every answer of the attempt answers a question of the
  attempt's quiz. The quiz of example 2 grades to 50.00 and fails at pass score 60.
\<close>

theorem grade_attempt_score:
  "score (fst (grade_attempt fl now attempt d)) = Some (graded_score fl d attempt)
   \<and> passed (fst (grade_attempt fl now attempt d))
       = (100 * pass_score (at_quiz attempt) \<le> graded_score fl d attempt)
   \<and> (quiz_questions d (at_quiz attempt) = [] \<and> answers_on_quiz d attempt \<longrightarrow>
        score (fst (grade_attempt fl now attempt d)) = Some 0
        \<and> passed (fst (grade_attempt fl now attempt d)) = (pass_score (at_quiz attempt) \<le> 0))
   \<and> score (fst (grade_attempt fl now ex_attempt ex_quiz_db)) = Some 5000
   \<and> passed (fst (grade_attempt fl now ex_attempt ex_quiz_db)) = False"
proof -
  have "pass_score (at_quiz ex_attempt) = 60"
    by (simp add: ex_attempt_def ex_quiz_def)
  then show ?thesis
    by (simp add: grade_fst no_questions_no_points ex_score)
qed

theorem grade_attempt_score_witness:
  "quiz_questions no_question_db (at_quiz ex_attempt) = []
   \<and> answers_on_quiz no_question_db ex_attempt
   \<and> score (fst (grade_attempt (\<lambda>n d. False) 9 ex_attempt no_question_db)) = Some 0
   \<and> passed (fst (grade_attempt (\<lambda>n d. False) 9 ex_attempt no_question_db)) = False"
proof -
  have q: "quiz_questions no_question_db (at_quiz ex_attempt) = []"
    by (simp add: quiz_questions_def no_question_db_def)
  have a: "answers_on_quiz no_question_db ex_attempt"
    by (simp add: answers_on_quiz_def attempt_answers_def no_question_db_def)
  have p: "pass_score (at_quiz ex_attempt) = 60"
    by (simp add: ex_attempt_def ex_quiz_def)
  from grade_attempt_score [of "\<lambda>n d. False" 9 ex_attempt no_question_db] q a
  have "score (fst (grade_attempt (\<lambda>n d. False) 9 ex_attempt no_question_db)) = Some 0
    \<and> passed (fst (grade_attempt (\<lambda>n d. False) 9 ex_attempt no_question_db))
        = (pass_score (at_quiz ex_attempt) \<le> 0)"
    by blast
  with q a p show ?thesis by simp
qed

subsection \<open>The completion of the enrollment\<close>

lemma find_save_spf:
  "find (\<lambda>x. at_id x = i) (save_score_passed_finished as a)
     = (if at_id a = i
        then map_option (\<lambda>x. x\<lparr>score := score a, passed := passed a, finished_at := finished_at a\<rparr>)
               (find (\<lambda>x. at_id x = i) as)
        else find (\<lambda>x. at_id x = i) as)"
  by (induction as) (auto simp: save_score_passed_finished_def)

lemma grade_snd_attempts:
  "attempts (snd (grade_attempt fl now attempt d))
     = save_score_passed_finished (attempts d) (fst (grade_attempt fl now attempt d))"
  by (simp add: grade_attempt_def Let_def split: option.splits)

lemma grade_snd_enrollments:
  "enrollments (snd (grade_attempt fl now attempt d))
     = (case get_enrollment (enrollments d) (at_user attempt) (quiz_course (at_quiz attempt)) of
          None \<Rightarrow> enrollments d
        | Some enr \<Rightarrow>
            if 100 * pass_score (at_quiz attempt) \<le> graded_score fl d attempt
            then mark_completed now enr (enrollments d) else enrollments d)"
  by (simp add: grade_attempt_def Let_def fold_grade_step graded_score_def spec_obtained_def
      spec_total_points_def total_or_1 split: option.splits)

lemma en_key_mark: "en_key (mark_completed_obj now e) = en_key e"
  by (simp add: mark_completed_obj_def en_key_def Let_def)

lemma mark_completed_fields:
  "e\<lparr>en_status := en_status (mark_completed_obj now e),
     progress := progress (mark_completed_obj now e),
     completed_at := completed_at (mark_completed_obj now e)\<rparr>
   = e\<lparr>en_status := COMPLETED, progress := 100,
       completed_at := (case completed_at e of None \<Rightarrow> Some now | Some t \<Rightarrow> Some t)\<rparr>"
  by (simp add: mark_completed_obj_def Let_def split: option.splits)

lemma get_mark_completed:
  assumes "get_enrollment es u c = Some enr"
  shows "get_enrollment (mark_completed now enr es) u0 c0
     = (if (u0, c0) = (u, c)
        then Some (enr\<lparr>en_status := COMPLETED, progress := 100,
                        completed_at := (case completed_at enr of None \<Rightarrow> Some now
                                         | Some t \<Rightarrow> Some t)\<rparr>)
        else get_enrollment es u0 c0)"
proof -
  have k: "en_key (mark_completed_obj now enr) = (u, c)"
    using assms by (simp add: en_key_mark get_Some_key)
  show ?thesis
    using assms by (auto simp: mark_completed_def get_save_spc k mark_completed_fields)
qed

text \<open>
  C8: \<open>grade_attempt\<close> writes score, passed and finished_at to the attempt and to its row.
  When the user has no enrollment in the quiz's course the enrollment table is left as it
  is; when there is one and the attempt passed, it becomes COMPLETED with progress 100,
  and its completion time is set to now only if it had none.
\<close>

theorem grade_attempt_completion:
  "find (\<lambda>x. at_id x = at_id attempt) (attempts (snd (grade_attempt fl now attempt d)))
     = map_option (\<lambda>x. x\<lparr>score := score (fst (grade_attempt fl now attempt d)),
                          passed := passed (fst (grade_attempt fl now attempt d)),
                          finished_at := Some now\<rparr>)
         (find (\<lambda>x. at_id x = at_id attempt) (attempts d))
   \<and> finished_at (fst (grade_attempt fl now attempt d)) = Some now
   \<and> score (fst (grade_attempt fl now attempt d)) \<noteq> None
   \<and> (get_enrollment (enrollments d) (at_user attempt) (quiz_course (at_quiz attempt)) = None
        \<longrightarrow> enrollments (snd (grade_attempt fl now attempt d)) = enrollments d)
   \<and> (\<forall>enr. get_enrollment (enrollments d) (at_user attempt) (quiz_course (at_quiz attempt))
               = Some enr
             \<and> passed (fst (grade_attempt fl now attempt d))
        \<longrightarrow> get_enrollment (enrollments (snd (grade_attempt fl now attempt d)))
              (at_user attempt) (quiz_course (at_quiz attempt))
            = Some (enr\<lparr>en_status := COMPLETED, progress := 100,
                         completed_at := (case completed_at enr of None \<Rightarrow> Some now
                                          | Some t \<Rightarrow> Some t)\<rparr>))"
  by (auto simp: grade_snd_attempts find_save_spf grade_snd_enrollments get_mark_completed
      grade_fst)

theorem grade_attempt_completion_witness:
  "get_enrollment (enrollments pass_db) (at_user pass_attempt)
     (quiz_course (at_quiz pass_attempt)) = None
   \<and> passed (fst (grade_attempt (\<lambda>n d. False) 9 pass_attempt pass_db))
   \<and> enrollments (snd (grade_attempt (\<lambda>n d. False) 9 pass_attempt pass_db)) = []
   \<and> get_enrollment (enrollments enrolled_db) (at_user pass_attempt)
       (quiz_course (at_quiz pass_attempt)) = Some (new_enrollment 0 7 3)
   \<and> passed (fst (grade_attempt (\<lambda>n d. False) 9 pass_attempt enrolled_db))
   \<and> get_enrollment (enrollments (snd (grade_attempt (\<lambda>n d. False) 9 pass_attempt enrolled_db)))
       (at_user pass_attempt) (quiz_course (at_quiz pass_attempt))
     = Some ((new_enrollment 0 7 3)
              \<lparr>en_status := COMPLETED, progress := 100, completed_at := Some 9\<rparr>)"
proof -
  have k: "at_user pass_attempt = 7" "quiz_course (at_quiz pass_attempt) = 3"
    "pass_score (at_quiz pass_attempt) = 50"
    by (simp_all add: pass_attempt_def ex_attempt_def ex_quiz_def)
  have n: "get_enrollment (enrollments pass_db) 7 3 = None"
    by (simp add: pass_db_def ex_quiz_db_def get_enrollment_def)
  have e: "get_enrollment (enrollments enrolled_db) 7 3 = Some (new_enrollment 0 7 3)"
    by (simp add: enrolled_db_def get_enrollment_def en_key_new)
  have p1: "passed (fst (grade_attempt (\<lambda>n d. False) 9 pass_attempt pass_db))"
    by (simp add: grade_fst pass_score_5000 k)
  have p2: "passed (fst (grade_attempt (\<lambda>n d. False) 9 pass_attempt enrolled_db))"
    by (simp add: grade_fst enrolled_score_5000 k)
  have c: "completed_at (new_enrollment 0 7 3) = None"
    by (simp add: new_enrollment_def)
  have b: "enrollments pass_db = []"
    by (simp add: pass_db_def ex_quiz_db_def)
  show ?thesis
    using grade_attempt_completion [of pass_attempt "\<lambda>n d. False" 9 pass_db]
      grade_attempt_completion [of pass_attempt "\<lambda>n d. False" 9 enrolled_db]
      n e p1 p2 b
    by (simp add: k c)
qed

subsection \<open>The completion time is written once\<close>

lemma completed_set_status:
  "completed_at e = Some t \<Longrightarrow> completed_at (set_status now p e) = Some t"
  by (simp add: set_status_def Let_def)

lemma recompute_keeps_completed:
  assumes "get_enrollment (enrollments d) u0 c0 = Some e" and "completed_at e = Some t"
  shows "\<exists>e'. get_enrollment (enrollments (recompute_enrollment_progress_for now u c d)) u0 c0
                 = Some e' \<and> completed_at e' = Some t"
proof (cases "(u0, c0) = (u, c)")
  case True
  with assms have "enrollment_or_new now u c d = e"
    by (simp add: enrollment_or_new_def)
  with True assms(2) show ?thesis
    by (simp add: recompute_row completed_set_status)
next
  case False
  with assms show ?thesis by (simp add: recompute_other_row)
qed

lemma grade_keeps_completed:
  assumes "get_enrollment (enrollments d) u0 c0 = Some e" and "completed_at e = Some t"
  shows "\<exists>e'. get_enrollment (enrollments (snd (grade_attempt fl now attempt d))) u0 c0
                 = Some e' \<and> completed_at e' = Some t"
  using assms
  by (auto simp: grade_snd_enrollments get_mark_completed split: option.splits)

lemma op_keeps_completed:
  assumes "get_enrollment (enrollments d) u0 c0 = Some e" and "completed_at e = Some t"
  shows "\<exists>e'. get_enrollment (enrollments (apply_op x d)) u0 c0 = Some e'
               \<and> completed_at e' = Some t"
  using assms
  by (cases x) (simp_all add: recompute_keeps_completed grade_keeps_completed)

lemma ops_keep_completed:
  "get_enrollment (enrollments d) u0 c0 = Some e \<Longrightarrow> completed_at e = Some t \<Longrightarrow>
   \<exists>e'. get_enrollment (enrollments (fold apply_op ops d)) u0 c0 = Some e'
        \<and> completed_at e' = Some t"
proof (induction ops arbitrary: d e)
  case Nil
  then show ?case by simp
next
  case (Cons x ops)
  from op_keeps_completed [OF Cons.prems, of x]
  obtain e1 where "get_enrollment (enrollments (apply_op x d)) u0 c0 = Some e1"
    and "completed_at e1 = Some t" by blast
  from Cons.IH [OF this] show ?case by simp
qed

lemma recompute_sets_completed:
  "completed_at (enrollment_or_new now u c d) = None \<Longrightarrow>
   map_option completed_at
     (get_enrollment (enrollments (recompute_enrollment_progress_for now u c d)) u c)
   = Some (if 100 \<le> compute_percent d u c then Some now else None)"
  by (auto simp: recompute_row set_status_def Let_def split: option.splits)

text \<open>
  C5: an enrollment whose completion time is set keeps that time through every history of
  recomputations and gradings, whatever happens to the material progress in between; and
  a recomputation of an enrollment without completion time sets it to now exactly when the
  percent has reached 100.
\<close>

theorem completed_at_written_once:
  "(get_enrollment (enrollments d) u c = Some e \<and> completed_at e = Some t \<longrightarrow>
      (\<exists>e'. get_enrollment (enrollments (fold apply_op ops d)) u c = Some e'
            \<and> completed_at e' = Some t))
   \<and> (completed_at (enrollment_or_new now u1 c1 d1) = None \<longrightarrow>
        map_option completed_at
          (get_enrollment (enrollments (recompute_enrollment_progress_for now u1 c1 d1)) u1 c1)
        = Some (if 100 \<le> compute_percent d1 u1 c1 then Some now else None))"
  using ops_keep_completed [of d u c e t ops] recompute_sets_completed [of now u1 c1 d1]
  by blast

theorem completed_at_written_once_witness:
  "get_enrollment (enrollments done_db) 7 3
     = Some ((new_enrollment 0 7 3)
              \<lparr>en_status := COMPLETED, progress := 100, completed_at := Some 9\<rparr>)
   \<and> (\<exists>e'. get_enrollment
             (enrollments (fold apply_op [Write_progress [], Recompute 864000 7 3] done_db)) 7 3
           = Some e'
         \<and> completed_at e' = Some 9)
   \<and> completed_at (enrollment_or_new 5 7 3 big_db) = None
   \<and> map_option completed_at
       (get_enrollment (enrollments (recompute_enrollment_progress_for 5 7 3 big_db)) 7 3)
     = Some (Some 5)"
proof -
  let ?row = "(new_enrollment 0 7 3)
                \<lparr>en_status := COMPLETED, progress := 100, completed_at := Some 9\<rparr>"
  have g: "get_enrollment (enrollments done_db) 7 3 = Some ?row"
    by (simp add: done_db_def empty_db_def get_enrollment_def en_key_def new_enrollment_def)
  have c: "completed_at ?row = Some 9" by simp
  have n: "completed_at (enrollment_or_new 5 7 3 big_db) = None"
    by (simp add: enrollment_or_new_def big_db_def get_enrollment_def new_enrollment_def)
  show ?thesis
    using completed_at_written_once
      [of done_db 7 3 ?row 9 "[Write_progress [], Recompute 864000 7 3]" 5 7 3 big_db]
      g c n
    by (simp add: big_percent)
qed

section \<open>Properties of the views\<close>

subsection \<open>The attempt limit of \<open>quiz_take\<close>\<close>

lemma user_attempts_save:
  "length (filter (\<lambda>a. quiz_id (at_quiz a) = q \<and> at_user a = u)
             (save_score_passed_finished as a0))
   = length (filter (\<lambda>a. quiz_id (at_quiz a) = q \<and> at_user a = u) as)"
  by (induction as) (auto simp: save_score_passed_finished_def)

lemma user_attempts_grade:
  "length (user_attempts (snd (grade_attempt fl now a d)) qz u) = length (user_attempts d qz u)"
  by (simp add: user_attempts_def grade_snd_attempts user_attempts_save)

lemma quiz_take_post:
  assumes "find (\<lambda>q. quiz_id q = qid \<and> quiz_active q) (quizzes d) = Some qz"
    and "qr_method req = POST"
  shows "length (user_attempts (snd (quiz_take fl now req qid d)) qz (qr_user req))
       = Suc (length (user_attempts d qz (qr_user req)))"
  using assms
  by (simp add: quiz_take_def Let_def case_prod_beta user_attempts_grade)
    (simp add: user_attempts_def)

text \<open>
  C7 fails on the code: the limit is tested for GET requests only. User 7 has used the
  single attempt that quiz 4 allows; a GET is answered with the page of status 403, but a
  POST creates a second attempt.
\<close>

theorem quiz_take_post_exceeds_limit:
  "attempts_allowed ex_quiz = 1
   \<and> length (user_attempts ex_quiz_db ex_quiz 7) = 1
   \<and> fst (quiz_take fl now
            \<lparr>qr_method = GET, qr_user = 7, q_field = (\<lambda>i. None), t_field = (\<lambda>i. [])\<rparr> 4 ex_quiz_db)
       = Render ''quiz_no_attempts.html'' 403
   \<and> length (user_attempts
       (snd (quiz_take fl now
              \<lparr>qr_method = POST, qr_user = 7, q_field = (\<lambda>i. None), t_field = (\<lambda>i. [])\<rparr> 4
              ex_quiz_db))
       ex_quiz 7) = 2"
proof -
  have f: "find (\<lambda>q. quiz_id q = 4 \<and> quiz_active q) (quizzes ex_quiz_db) = Some ex_quiz"
    by (simp add: ex_quiz_db_def ex_quiz_def)
  have u: "length (user_attempts ex_quiz_db ex_quiz 7) = 1"
    by (simp add: user_attempts_def ex_quiz_db_def ex_attempt_def ex_quiz_def)
  have a: "attempts_allowed ex_quiz = 1"
    by (simp add: ex_quiz_def)
  have g: "fst (quiz_take fl now
            \<lparr>qr_method = GET, qr_user = 7, q_field = (\<lambda>i. None), t_field = (\<lambda>i. [])\<rparr> 4 ex_quiz_db)
       = Render ''quiz_no_attempts.html'' 403"
    by (simp add: quiz_take_def f u a)
  show ?thesis
    using quiz_take_post [OF f, of "\<lparr>qr_method = POST, qr_user = 7, q_field = (\<lambda>i. None),
      t_field = (\<lambda>i. [])\<rparr>" fl now] u a g
    by simp
qed

subsection \<open>Enrollments created with progress 100\<close>

text \<open>
  C3 fails on the code: \<open>course_bulk_enroll\<close> with initial progress 100 and
  \<open>enrollment_create\<close> with progress 100 create an enrollment with progress 100 and a
  completion time whose status is the default ASSIGNED.
\<close>

theorem created_with_progress_100_is_assigned:
  "map (\<lambda>e. (progress e, en_status e, completed_at e))
     (enrollments (snd (snd (snd
        (course_bulk_enroll 9 \<lparr>u_id = 1, is_superuser = True, u_profile = None\<rparr> 3 (Some 2)
           (Some 100) bulk_db)))))
     = [(100, ASSIGNED, Some 9)]
   \<and> map (\<lambda>e. (progress e, en_status e, completed_at e))
       (enrollments (snd (enrollment_create 9 7 3 (Some 100) bulk_db)))
     = [(100, ASSIGNED, Some 9)]"
  by (simp add: course_bulk_enroll_def enrollment_create_def bulk_db_def empty_db_def
      is_admin_def is_manager_def role_of_def get_or_create_def get_enrollment_def
      save_completed_at_def new_enrollment_def en_key_def Let_def)

subsection \<open>Impersonation by a user who is no administrator\<close>

lemma is_admin_iff:
  "is_admin u = (is_superuser u \<or> map_option p_role (u_profile u) = Some ADMIN)"
  by (auto simp: is_admin_def role_of_def split: option.splits)

lemma is_admin_imp_iff:
  "is_admin_imp u = (is_superuser u \<or> map_option p_role (u_profile u) = Some ADMIN)"
  by (auto simp: is_admin_imp_def split: option.splits)

text \<open>
  C9: when the requesting user is no superuser and has no profile of role ADMIN, both
  \<open>impersonate_start\<close> views refuse: the session, with its authenticated user and its
  impersonator, is returned as it was, whatever \<open>login\<close> would do. The view of
  core/extra_views.py answers with the error message ``Not authorized.'', the view of
  core/impersonation.py with the redirection to the login page.
\<close>

theorem impersonate_start_refused:
  assumes "\<not> is_superuser (rq_user request)"
    and "map_option p_role (u_profile (rq_user request)) \<noteq> Some ADMIN"
  shows "impersonate_start login us request user_id
           = (rq_session request, [(Error, ''Not authorized.'')], To ''user_list'')
       \<and> impersonate_start_imp login us request user_id = (rq_session request, [], To_login)"
  using assms
  by (simp add: impersonate_start_def impersonate_start_imp_def is_admin_iff is_admin_imp_iff)

theorem impersonate_start_refused_witness:
  "\<not> is_superuser (rq_user learner_request)
   \<and> map_option p_role (u_profile (rq_user learner_request)) \<noteq> Some ADMIN
   \<and> impersonate_start (\<lambda>s u. s\<lparr>auth_user_id := u_id u\<rparr>) (users bulk_db) learner_request 1
       = (\<lparr>auth_user_id = 7, impersonator_id = None, is_impersonating = None\<rparr>,
          [(Error, ''Not authorized.'')], To ''user_list'')
   \<and> impersonate_start_imp (\<lambda>s u. s\<lparr>auth_user_id := u_id u\<rparr>) (users bulk_db) learner_request 1
       = (\<lparr>auth_user_id = 7, impersonator_id = None, is_impersonating = None\<rparr>, [], To_login)"
proof -
  have a: "\<not> is_superuser (rq_user learner_request)"
    by (simp add: learner_request_def)
  have b: "map_option p_role (u_profile (rq_user learner_request)) \<noteq> Some ADMIN"
    by (simp add: learner_request_def)
  have c: "rq_session learner_request
         = \<lparr>auth_user_id = 7, impersonator_id = None, is_impersonating = None\<rparr>"
    by (simp add: learner_request_def)
  show ?thesis
    using impersonate_start_refused
      [OF a b, of "\<lambda>s u. s\<lparr>auth_user_id := u_id u\<rparr>" "users bulk_db" 1] a b
    by (simp add: c)
qed

section \<open>Properties of the auto-enrollment\<close>




lemma en_key_upd [simp]:
  "en_key (e\<lparr>due_date := x\<rparr>) = en_key e"
  "en_key (e\<lparr>assigned_by := y\<rparr>) = en_key e"
  "en_key (e\<lparr>required := z\<rparr>) = en_key e"
  "en_key (e\<lparr>auto_enrolled := w\<rparr>) = en_key e"
  by (simp_all add: en_key_def)




















end
